theory Spec2Isabelle
  imports Complex_Main
begin

section \<open>The line geometry of juce_Line.h over exact arithmetic\<close>

text \<open>
  \<^verbatim>\<open>Line<ValueType>\<close> is a template over a primitive numeric type. The embedding takes
  \<open>ValueType\<close> to be the real numbers: every \<open>+\<close>, \<open>-\<close>, \<open>*\<close> and comparison of the
  source is the exact one, and the casts \<^verbatim>\<open>(double)\<close>, \<^verbatim>\<open>(float)\<close> and
  \<^verbatim>\<open>(ValueType)\<close> are the identity. Rounding, infinities and NaN are not part of the
  model. Division is the one partial operation: the source's \<open>a / b\<close> with \<open>b = 0\<close> has no
  finite value (an infinity or NaN for the floating types, undefined for the integer
  ones), so every \<open>/\<close> of the source goes through \<open>vdiv\<close>, whose result \<open>None\<close> is
  propagated to the caller. A function of the model returns \<open>Some\<close> exactly when none of
  the divisions it executes has a zero divisor.

  The model agrees with the program wherever every operation of the source is exact in
  \<^verbatim>\<open>float\<close> and \<^verbatim>\<open>double\<close>, as it is on the small integer coordinates of the concrete
  inputs below, and it is the arithmetic of a statement made in exact arithmetic. What
  the program does where a product overflows or underflows, or where a result is
  rounded, is not stated here.
\<close>

subsection \<open>Arithmetic helpers (juce_MathsFunctions.h)\<close>

definition vdiv :: "real \<Rightarrow> real \<Rightarrow> real option" where
  "vdiv a b = (if b = 0 then None else Some (a / b))"

definition jmin :: "real \<Rightarrow> real \<Rightarrow> real" where
  "jmin a b = (if b < a then b else a)"

definition juce_hypot :: "real \<Rightarrow> real \<Rightarrow> real" where
  \<comment> \<open>the C library's \<open>hypot\<close>\<close>
  "juce_hypot a b = sqrt (a * a + b * b)"

subsection \<open>Points\<close>

text \<open>
  Modelled from the spec: juce_Point.h, which declares \<^verbatim>\<open>Point<ValueType>\<close>, is not among
  the sources. The spec gives a point as an ordered pair \<open>(x, y)\<close> whose equality is
  component-wise, and the length of a segment as the Euclidean distance of its endpoints.
  The operators that juce_Line.h applies to points are the component-wise ones.
\<close>

datatype Point = Point (getX: real) (getY: real)

definition point_add :: "Point \<Rightarrow> Point \<Rightarrow> Point" where
  "point_add p q = Point (getX p + getX q) (getY p + getY q)"

definition point_sub :: "Point \<Rightarrow> Point \<Rightarrow> Point" where
  "point_sub p q = Point (getX p - getX q) (getY p - getY q)"

definition point_mul :: "Point \<Rightarrow> real \<Rightarrow> Point" where
  "point_mul p k = Point (getX p * k) (getY p * k)"

definition point_div :: "Point \<Rightarrow> real \<Rightarrow> Point option" where
  "point_div p k =
     (case vdiv (getX p) k of
        None \<Rightarrow> None
      | Some a \<Rightarrow> (case vdiv (getY p) k of None \<Rightarrow> None | Some b \<Rightarrow> Some (Point a b)))"

definition isOrigin :: "Point \<Rightarrow> bool" where
  "isOrigin p \<longleftrightarrow> getX p = 0 \<and> getY p = 0"

definition withX :: "Point \<Rightarrow> real \<Rightarrow> Point" where
  "withX p newX = Point newX (getY p)"

definition withY :: "Point \<Rightarrow> real \<Rightarrow> Point" where
  "withY p newY = Point (getX p) newY"

definition getDistanceFrom :: "Point \<Rightarrow> Point \<Rightarrow> real" where
  "getDistanceFrom p other = juce_hypot (getX p - getX other) (getY p - getY other)"

subsection \<open>Lines (juce_Line.h)\<close>

datatype Line = Line (getStart: Point) (getEnd: Point)

definition getLength :: "Line \<Rightarrow> real" where
  "getLength l = getDistanceFrom (getStart l) (getEnd l)"

text \<open>The one-argument \<^verbatim>\<open>getPointAlongLine\<close>: it divides by the length with no test.\<close>

definition getPointAlongLine :: "Line \<Rightarrow> real \<Rightarrow> Point option" where
  "getPointAlongLine l distanceFromStart =
     (case vdiv distanceFromStart (getLength l) of
        None \<Rightarrow> None
      | Some r \<Rightarrow>
          Some (point_add (getStart l) (point_mul (point_sub (getEnd l) (getStart l)) r)))"

text \<open>The two-argument overload: it returns the start point when the length is not positive.\<close>

definition getPointAlongLine_perpendicular :: "Line \<Rightarrow> real \<Rightarrow> real \<Rightarrow> Point option" where
  "getPointAlongLine_perpendicular l distanceFromStart perpendicularDistance =
     (let delta = point_sub (getEnd l) (getStart l);
          length = juce_hypot (getX delta) (getY delta)
      in if length \<le> 0 then Some (getStart l)
         else
           (case vdiv (getX delta * distanceFromStart - getY delta * perpendicularDistance)
                      length of
              None \<Rightarrow> None
            | Some a \<Rightarrow>
                (case vdiv (getY delta * distanceFromStart + getX delta * perpendicularDistance)
                           length of
                   None \<Rightarrow> None
                 | Some b \<Rightarrow> Some (Point (getX (getStart l) + a) (getY (getStart l) + b)))))"

definition getPointAlongLineProportionally :: "Line \<Rightarrow> real \<Rightarrow> Point" where
  "getPointAlongLineProportionally l proportionOfLength =
     point_add (getStart l) (point_mul (point_sub (getEnd l) (getStart l)) proportionOfLength)"

definition withShortenedStart :: "Line \<Rightarrow> real \<Rightarrow> Line option" where
  "withShortenedStart l distanceToShortenBy =
     (case getPointAlongLine l (jmin distanceToShortenBy (getLength l)) of
        None \<Rightarrow> None
      | Some p \<Rightarrow> Some (Line p (getEnd l)))"

text \<open>
  \<^verbatim>\<open>findIntersection\<close> writes the point to \<^verbatim>\<open>intersection\<close> on every path before it
  returns the boolean; the model returns the pair.
\<close>

definition findIntersection ::
  "Point \<Rightarrow> Point \<Rightarrow> Point \<Rightarrow> Point \<Rightarrow> (Point \<times> bool) option" where
  "findIntersection p1 p2 p3 p4 =
     (if p2 = p3 then Some (p2, True)
      else
        let d1 = point_sub p2 p1;
            d2 = point_sub p4 p3;
            divisor = getX d1 * getY d2 - getX d2 * getY d1;
            midpoint =
              (case point_div (point_add p2 p3) 2 of
                 None \<Rightarrow> None
               | Some m \<Rightarrow> Some (m, False))
        in if divisor = 0 then
             (if \<not> (isOrigin d1 \<or> isOrigin d2) then
                (if getY d1 = 0 \<and> getY d2 \<noteq> 0 then
                   (case vdiv (getY p1 - getY p3) (getY d2) of
                      None \<Rightarrow> None
                    | Some along \<Rightarrow>
                        Some (withX p1 (getX p3 + along * getX d2), along \<ge> 0 \<and> along \<le> 1))
                 else if getY d2 = 0 \<and> getY d1 \<noteq> 0 then
                   (case vdiv (getY p3 - getY p1) (getY d1) of
                      None \<Rightarrow> None
                    | Some along \<Rightarrow>
                        Some (withX p3 (getX p1 + along * getX d1), along \<ge> 0 \<and> along \<le> 1))
                 else if getX d1 = 0 \<and> getX d2 \<noteq> 0 then
                   (case vdiv (getX p1 - getX p3) (getX d2) of
                      None \<Rightarrow> None
                    | Some along \<Rightarrow>
                        Some (withY p1 (getY p3 + along * getY d2), along \<ge> 0 \<and> along \<le> 1))
                 else if getX d2 = 0 \<and> getX d1 \<noteq> 0 then
                   (case vdiv (getX p3 - getX p1) (getX d1) of
                      None \<Rightarrow> None
                    | Some along \<Rightarrow>
                        Some (withY p3 (getY p1 + along * getY d1), along \<ge> 0 \<and> along \<le> 1))
                 else midpoint)
              else midpoint)
           else
             (case vdiv ((getY p1 - getY p3) * getX d2 - (getX p1 - getX p3) * getY d2)
                        divisor of
                None \<Rightarrow> None
              | Some along1 \<Rightarrow>
                  (let intersection = point_add p1 (point_mul d1 along1)
                   in if along1 < 0 \<or> along1 > 1 then Some (intersection, False)
                      else
                        (case vdiv ((getY p1 - getY p3) * getX d1
                                    - (getX p1 - getX p3) * getY d1) divisor of
                           None \<Rightarrow> None
                         | Some along2 \<Rightarrow>
                             Some (intersection, along2 \<ge> 0 \<and> along2 \<le> 1)))))"

definition intersects :: "Line \<Rightarrow> Line \<Rightarrow> (Point \<times> bool) option" where
  "intersects l line = findIntersection (getStart l) (getEnd l) (getStart line) (getEnd line)"

section \<open>Auxiliary facts\<close>

lemmas point_defs =
  point_add_def point_sub_def point_mul_def point_div_def isOrigin_def withX_def withY_def
  vdiv_def

lemma juce_hypot_zero_iff: "juce_hypot a b = 0 \<longleftrightarrow> a = 0 \<and> b = 0"
  by (simp add: juce_hypot_def add_nonneg_eq_0_iff)

lemma juce_hypot_nonneg: "0 \<le> juce_hypot a b"
  by (simp add: juce_hypot_def)

lemma getLength_zero_iff: "getLength l = 0 \<longleftrightarrow> getStart l = getEnd l"
  by (cases l; cases "getStart l"; cases "getEnd l")
     (auto simp add: getLength_def getDistanceFrom_def juce_hypot_zero_iff)

lemma getLength_nonneg: "0 \<le> getLength l"
  by (simp add: getLength_def getDistanceFrom_def juce_hypot_nonneg)

lemma point_add_sub_cancel: "point_add s (point_mul (point_sub e s) 1) = e"
  by (cases s; cases e) (simp add: point_defs)

lemma point_add_mul_zero: "point_add s (point_mul d 0) = s"
  by (cases s) (simp add: point_defs)

subsection \<open>The one-argument \<^verbatim>\<open>getPointAlongLine\<close> on a segment of length 0\<close>

lemma getPointAlongLine_degenerate: "getPointAlongLine (Line s s) d = None"
  using getLength_zero_iff [of "Line s s"] by (simp add: getPointAlongLine_def vdiv_def)

lemma getPointAlongLine_perpendicular_degenerate:
  "getPointAlongLine_perpendicular (Line s s) d e = Some s"
  by (simp add: getPointAlongLine_perpendicular_def Let_def point_sub_def juce_hypot_def)

lemma withShortenedStart_degenerate: "withShortenedStart (Line s s) d = None"
  by (simp add: withShortenedStart_def getPointAlongLine_degenerate)

text \<open>
  On a segment of positive length \<^verbatim>\<open>withShortenedStart\<close> divides by a non-zero length:
  shortening by 0 gives the segment back, shortening by the length moves the start onto
  the end, and the new start is the point at a proportion of at most 1.
\<close>

lemma withShortenedStart_nondegenerate:
  assumes "getStart l \<noteq> getEnd l"
  shows "withShortenedStart l 0 = Some l"
    and "withShortenedStart l (getLength l) = Some (Line (getEnd l) (getEnd l))"
    and "\<exists>r\<le>1. withShortenedStart l d =
           Some (Line (getPointAlongLineProportionally l r) (getEnd l))"
proof -
  have pos: "0 < getLength l"
    using assms getLength_zero_iff [of l] getLength_nonneg [of l] by simp
  show "withShortenedStart l 0 = Some l"
    using pos by (simp add: withShortenedStart_def getPointAlongLine_def vdiv_def jmin_def
        point_add_mul_zero)
  show "withShortenedStart l (getLength l) = Some (Line (getEnd l) (getEnd l))"
    using pos by (simp add: withShortenedStart_def getPointAlongLine_def vdiv_def jmin_def
        point_add_sub_cancel)
  have "jmin d (getLength l) / getLength l \<le> 1"
    using pos by (simp add: jmin_def)
  then show "\<exists>r\<le>1. withShortenedStart l d =
           Some (Line (getPointAlongLineProportionally l r) (getEnd l))"
    using pos by (intro exI [of _ "jmin d (getLength l) / getLength l"])
      (simp add: withShortenedStart_def getPointAlongLine_def vdiv_def
        getPointAlongLineProportionally_def)
qed

subsection \<open>The zero cross product branch of \<^verbatim>\<open>findIntersection\<close>\<close>

text \<open>
  With a zero cross product and \<open>p2 \<noteq> p3\<close> the result is the midpoint of \<open>p2\<close> and
  \<open>p3\<close> with \<open>False\<close>: each guard of the four axis-aligned branches, together with the
  zero cross product, makes one direction vector the origin.
\<close>

lemma findIntersection_parallel:
  assumes "p2 \<noteq> p3"
    and "getX (point_sub p2 p1) * getY (point_sub p4 p3)
         - getX (point_sub p4 p3) * getY (point_sub p2 p1) = 0"
  shows "findIntersection p1 p2 p3 p4 =
           Some (Point ((getX p2 + getX p3) / 2) ((getY p2 + getY p3) / 2), False)"
  using assms by (auto simp add: findIntersection_def point_defs Let_def)

section \<open>Properties\<close>

subsection \<open>Intersection of two segments\<close>

text \<open>
  C8: when the end of the first segment equals the start of the second (\<open>p2 = p3\<close>),
  \<open>findIntersection\<close> returns that point and reports an intersection, whatever the other
  two endpoints are: the test comes first, before any other case and before any division.
\<close>

theorem findIntersection_shared_endpoint:
  "findIntersection p1 p2 p2 p4 = Some (p2, True)"
  by (simp add: findIntersection_def)

text \<open>
  C5: in exact arithmetic, for \<open>p2 \<noteq> p3\<close> and direction vectors with a zero cross
  product, \<open>findIntersection\<close> always returns the midpoint of \<open>p2\<close> and \<open>p3\<close> with the
  boolean false. None of the four axis-aligned branches can be taken: once neither
  direction vector is the origin, no guard of the four holds.
\<close>

theorem findIntersection_parallel_always_midpoint:
  fixes p1 p2 p3 p4 :: Point
  defines "d1 \<equiv> point_sub p2 p1" and "d2 \<equiv> point_sub p4 p3"
  assumes ne: "p2 \<noteq> p3" and z: "getX d1 * getY d2 - getX d2 * getY d1 = 0"
  shows "findIntersection p1 p2 p3 p4 =
           Some (Point ((getX p2 + getX p3) / 2) ((getY p2 + getY p3) / 2), False)
         \<and> (\<not> (isOrigin d1 \<or> isOrigin d2) \<longrightarrow>
              \<not> (getY d1 = 0 \<and> getY d2 \<noteq> 0) \<and> \<not> (getY d2 = 0 \<and> getY d1 \<noteq> 0)
              \<and> \<not> (getX d1 = 0 \<and> getX d2 \<noteq> 0) \<and> \<not> (getX d2 = 0 \<and> getX d1 \<noteq> 0))"
proof
  from ne z show "findIntersection p1 p2 p3 p4 =
           Some (Point ((getX p2 + getX p3) / 2) ((getY p2 + getY p3) / 2), False)"
    unfolding d1_def d2_def by (rule findIntersection_parallel)
  from z show "\<not> (isOrigin d1 \<or> isOrigin d2) \<longrightarrow>
              \<not> (getY d1 = 0 \<and> getY d2 \<noteq> 0) \<and> \<not> (getY d2 = 0 \<and> getY d1 \<noteq> 0)
              \<and> \<not> (getX d1 = 0 \<and> getX d2 \<noteq> 0) \<and> \<not> (getX d2 = 0 \<and> getX d1 \<noteq> 0)"
    by (auto simp add: isOrigin_def)
qed

text \<open>Two parallel diagonal segments, \<open>(0,0)-(2,2)\<close> and \<open>(1,0)-(3,2)\<close>.\<close>

theorem findIntersection_parallel_always_midpoint_witness:
  "Point 2 2 \<noteq> Point 1 0
   \<and> \<not> (isOrigin (Point 2 2) \<or> isOrigin (Point 2 2))
   \<and> findIntersection (Point 0 0) (Point 2 2) (Point 1 0) (Point 3 2) =
       Some (Point (3 / 2) 1, False)"
  using findIntersection_parallel_always_midpoint
    [where ?p1.0 = "Point 0 0" and ?p2.0 = "Point 2 2"
       and ?p3.0 = "Point 1 0" and ?p4.0 = "Point 3 2"]
  by (simp add: point_sub_def isOrigin_def)

text \<open>
  C3: the boolean is not the same in both orders. The segments \<open>(0,0)-(1,0)\<close> and
  \<open>(1,0)-(2,0)\<close> lie on one line and share the point \<open>(1,0)\<close>. With the first of them as
  receiver the shared-endpoint test answers true with the point \<open>(1,0)\<close>; with the second
  as receiver the test fails (it compares \<open>(2,0)\<close> with \<open>(0,0)\<close>), the cross product is
  zero, and the answer is false with the midpoint \<open>(1,0)\<close>. Every coordinate, difference
  and product at this input is a small integer, and the halving of 2 and of 0 is exact.
\<close>

theorem intersects_boolean_depends_on_order:
  "intersects (Line (Point 0 0) (Point 1 0)) (Line (Point 1 0) (Point 2 0)) =
     Some (Point 1 0, True)
   \<and> intersects (Line (Point 1 0) (Point 2 0)) (Line (Point 0 0) (Point 1 0)) =
       Some (Point 1 0, False)"
  by (simp add: intersects_def findIntersection_def Let_def point_defs)

subsection \<open>Points at a distance, on a segment of length 0\<close>

text \<open>
  C2: on a segment of length 0 the one-argument \<^verbatim>\<open>getPointAlongLine\<close> does not return
  the start point, and it does not test the length before dividing: on the segment
  \<open>(3,3)-(3,3)\<close> with \<open>d = 5\<close> it divides 5 by the length 0 and has no finite result,
  whereas the two-argument overload tests the length and returns \<open>(3,3)\<close>.
\<close>

theorem getPointAlongLine_zero_length_divides_by_zero:
  "getPointAlongLine (Line (Point 3 3) (Point 3 3)) 5 = None
   \<and> getPointAlongLine_perpendicular (Line (Point 3 3) (Point 3 3)) 5 0 = Some (Point 3 3)"
  by (simp add: getPointAlongLine_degenerate getPointAlongLine_perpendicular_degenerate)

text \<open>
  C9: \<open>withShortenedStart(0)\<close> does not return the segment itself for every segment.
  \<^verbatim>\<open>withShortenedStart\<close> calls the one-argument \<^verbatim>\<open>getPointAlongLine\<close>, so on the
  segment \<open>(3,3)-(3,3)\<close> shortening by 0 divides 0 by the length 0 and the new start has
  no finite value. (On segments of positive length shortening by 0 gives the segment
  back, shortening by the length moves the start onto the end, and the distance is capped
  at the length: \<open>withShortenedStart_nondegenerate\<close>.)
\<close>

theorem withShortenedStart_zero_length_divides_by_zero:
  "withShortenedStart (Line (Point 3 3) (Point 3 3)) 0 = None"
  by (simp add: withShortenedStart_degenerate)

end
